theory Spec2Isabelle
  imports Complex_Main
begin

section \<open>Strings: the Python built-ins used by the goals file parser\<close>

text \<open>
  The node is a Python 2 ROS script: a line read from the file is a byte string, modelled
  as a \<^typ>\<open>string\<close>. \<open>str.strip()\<close> removes leading and trailing whitespace, which
  for a byte string is the six characters space, tab, line feed, vertical tab, form feed
  and carriage return.
\<close>

definition is_space :: "char \<Rightarrow> bool" where
  "is_space c = (c = CHR '' '' \<or> c = CHR 0x09 \<or> c = CHR 0x0A \<or> c = CHR 0x0B
      \<or> c = CHR 0x0C \<or> c = CHR 0x0D)"

definition py_strip :: "string \<Rightarrow> string" where
  "py_strip s = rev (dropWhile is_space (rev (dropWhile is_space s)))"

fun py_startswith :: "string \<Rightarrow> string \<Rightarrow> bool" where
  "py_startswith s [] = True"
| "py_startswith [] (p # ps) = False"
| "py_startswith (c # cs) (p # ps) = (c = p \<and> py_startswith cs ps)"

text \<open>\<open>s.split(sep)\<close> for a one-character separator: never an empty list.\<close>

fun py_split :: "char \<Rightarrow> string \<Rightarrow> string list" where
  "py_split sep [] = [[]]"
| "py_split sep (c # cs) =
     (if c = sep then [] # py_split sep cs
      else (case py_split sep cs of
              [] \<Rightarrow> [[c]]
            | p # ps \<Rightarrow> (c # p) # ps))"

text \<open>
  Iterating over a file yields its lines, each with its terminating line feed; a last
  line without one is yielded as it is.
\<close>

fun file_lines :: "string \<Rightarrow> string list" where
  "file_lines [] = []"
| "file_lines (c # cs) =
     (if c = CHR 0x0A then [c] # file_lines cs
      else (case file_lines cs of
              [] \<Rightarrow> [[c]]
            | l # ls \<Rightarrow> (c # l) # ls))"

text \<open>List indexing with a non-negative literal index: out of range raises IndexError.\<close>

datatype error = IOError | NameError string | IndexError | ValueError string

definition index :: "'a list \<Rightarrow> nat \<Rightarrow> error + 'a" where
  "index xs i = (if i < length xs then Inr (xs ! i) else Inl IndexError)"

section \<open>GoalsFileParser\<close>

text \<open>
  A goal is the tuple \<open>(x, y, theta)\<close> of three Python floats. The parser only passes
  them on, so it is modelled for any type \<open>'v\<close> of values, with the built-in \<open>float()\<close>
  as its parameter \<open>flt\<close>: \<open>None\<close> where it raises ValueError.
\<close>

record GoalsFileParser =
  GoalsFilePath :: "string option"

definition ExtractValue :: "(string \<Rightarrow> 'v option) \<Rightarrow> string \<Rightarrow> string \<Rightarrow> error + 'v" where
  "ExtractValue flt variableName linePart =
     (let nameValueParts = py_split CHR ''='' linePart in
      case index nameValueParts 0 of
        Inl e \<Rightarrow> Inl e
      | Inr n \<Rightarrow>
          if py_strip n \<noteq> variableName
          then Inl (NameError (''Expected variable name '' @ variableName @ '' but found '' @ py_strip n))
          else (case index nameValueParts 1 of
                  Inl e \<Rightarrow> Inl e
                | Inr v \<Rightarrow>
                    (case flt (py_strip v) of
                       None \<Rightarrow> Inl (ValueError (py_strip v))
                     | Some r \<Rightarrow> Inr r)))"

definition ParseLine :: "(string \<Rightarrow> 'v option) \<Rightarrow> string \<Rightarrow> error + ('v \<times> 'v \<times> 'v) option" where
  "ParseLine flt line =
     (let trimmedLine = py_strip line in
      if py_startswith trimmedLine ''//'' then Inr None
      else if length trimmedLine = 0 then Inr None
      else
        let lineParts = py_split CHR '','' trimmedLine in
        (case index lineParts 0 of Inl e \<Rightarrow> Inl e | Inr p0 \<Rightarrow>
        (case ExtractValue flt ''x'' p0 of Inl e \<Rightarrow> Inl e | Inr x \<Rightarrow>
        (case index lineParts 1 of Inl e \<Rightarrow> Inl e | Inr p1 \<Rightarrow>
        (case ExtractValue flt ''y'' p1 of Inl e \<Rightarrow> Inl e | Inr y \<Rightarrow>
        (case index lineParts 2 of Inl e \<Rightarrow> Inl e | Inr p2 \<Rightarrow>
        (case ExtractValue flt ''theta'' p2 of Inl e \<Rightarrow> Inl e | Inr theta \<Rightarrow>
         Inr (Some (x, y, theta)))))))))"

text \<open>The loop of \<open>Parse\<close> over the lines, with the list \<open>goals\<close> built so far.\<close>

fun Parse_loop :: "(string \<Rightarrow> 'v option) \<Rightarrow> string list \<Rightarrow> ('v \<times> 'v \<times> 'v) list
    \<Rightarrow> error + ('v \<times> 'v \<times> 'v) list" where
  "Parse_loop flt [] goals = Inr goals"
| "Parse_loop flt (line # rest) goals =
     (case ParseLine flt line of
        Inl e \<Rightarrow> Inl e
      | Inr None \<Rightarrow> Parse_loop flt rest goals
      | Inr (Some goal) \<Rightarrow> Parse_loop flt rest (goals @ [goal]))"

text \<open>
  \<open>Parse\<close> stores the path in the parser object, opens the file (\<open>fs\<close> maps a path to
  the content of the file, \<open>None\<close> where \<open>open\<close> raises IOError) and runs the loop.
\<close>

definition Parse :: "(string \<Rightarrow> 'v option) \<Rightarrow> (string \<Rightarrow> string option) \<Rightarrow> GoalsFileParser
    \<Rightarrow> string \<Rightarrow> (error + ('v \<times> 'v \<times> 'v) list) \<times> GoalsFileParser" where
  "Parse flt fs self filePath =
     (let self' = self\<lparr>GoalsFilePath := Some filePath\<rparr> in
      case fs filePath of
        None \<Rightarrow> (Inl IOError, self')
      | Some content \<Rightarrow> (Parse_loop flt (file_lines content) [], self'))"

text \<open>
  An instance of \<open>float()\<close> for concrete inputs: the finite decimal literals, that is an
  optional sign, digits with an optional point (at least one digit), and an optional
  exponent, read as the real number they denote. Python also accepts the spellings of
  infinity and NaN, which have no real value: \<open>py_float\<close> does not accept them, and
  \<open>py_float64\<close> below does. Every general statement holds for any \<open>flt\<close>.
\<close>

definition is_digit :: "char \<Rightarrow> bool" where
  "is_digit c = (c \<in> set ''0123456789'')"

definition digits_val :: "string \<Rightarrow> nat" where
  "digits_val ds = foldl (\<lambda>n c. 10 * n + (of_char c - 48)) 0 ds"

fun take_sign :: "string \<Rightarrow> bool \<times> string" where
  "take_sign [] = (False, [])"
| "take_sign (c # cs) =
     (if c = CHR ''-'' then (True, cs)
      else if c = CHR ''+'' then (False, cs)
      else (False, c # cs))"

definition py_float :: "string \<Rightarrow> real option" where
  "py_float s =
     (case take_sign (py_strip s) of (neg, body) \<Rightarrow>
      let ip = takeWhile is_digit body;
          r1 = dropWhile is_digit body;
          fp = (case r1 of [] \<Rightarrow> []
                | c # cs \<Rightarrow> if c = CHR ''.'' then takeWhile is_digit cs else []);
          r2 = (case r1 of [] \<Rightarrow> []
                | c # cs \<Rightarrow> if c = CHR ''.'' then dropWhile is_digit cs else r1);
          mant = real (digits_val (ip @ fp)) / 10 ^ length fp;
          sgn = (if neg then - 1 else 1)
      in if ip = [] \<and> fp = [] then None
         else (case r2 of
                 [] \<Rightarrow> Some (sgn * mant)
               | c # cs \<Rightarrow>
                   if c = CHR ''e'' \<or> c = CHR ''E'' then
                     (case take_sign cs of (eneg, ebody) \<Rightarrow>
                        if ebody = [] \<or> \<not> list_all is_digit ebody then None
                        else if eneg then Some (sgn * mant / 10 ^ digits_val ebody)
                        else Some (sgn * mant * 10 ^ digits_val ebody))
                   else None))"

text \<open>
  Python floats with their non-finite values (the rounding of the finite ones, and
  their overflow to infinity, are not modelled), and \<open>float()\<close> with the spellings it accepts for them, in any case and with
  an optional sign. Two floats are equal for Python's \<open>==\<close> when they are the same
  value and not NaN; tuples and lists that are not the same object are equal when their
  items are.
\<close>

datatype float64 = Finite real | PosInf | NegInf | NaN

definition to_lower :: "char \<Rightarrow> char" where
  "to_lower c =
     (let n = (of_char c :: nat) in if 65 \<le> n \<and> n \<le> 90 then char_of (n + 32) else c)"

definition py_float64 :: "string \<Rightarrow> float64 option" where
  "py_float64 s =
     (case py_float s of
        Some v \<Rightarrow> Some (Finite v)
      | None \<Rightarrow>
          (case take_sign (py_strip s) of (neg, body) \<Rightarrow>
             let word = map to_lower body in
             if word = ''nan'' then Some NaN
             else if word = ''inf'' \<or> word = ''infinity''
                  then Some (if neg then NegInf else PosInf)
             else None))"

definition float_eq :: "float64 \<Rightarrow> float64 \<Rightarrow> bool" where
  "float_eq a b = (a \<noteq> NaN \<and> b \<noteq> NaN \<and> a = b)"

definition goal_eq :: "float64 \<times> float64 \<times> float64 \<Rightarrow> float64 \<times> float64 \<times> float64 \<Rightarrow> bool" where
  "goal_eq g h =
     (case g of (x, y, theta) \<Rightarrow>
      (case h of (x', y', theta') \<Rightarrow> float_eq x x' \<and> float_eq y y' \<and> float_eq theta theta'))"

definition goals_eq :: "(float64 \<times> float64 \<times> float64) list \<Rightarrow> (float64 \<times> float64 \<times> float64) list
    \<Rightarrow> bool" where
  "goals_eq gs hs = list_all2 goal_eq gs hs"

section \<open>ROS messages and the world the sequencer acts on\<close>

text \<open>
  The sequencer computes with the coordinates; there they are real numbers, the finite
  floats without their rounding.
\<close>

type_synonym goal = "real \<times> real \<times> real"

datatype GoalStatus = PENDING | ACTIVE | PREEMPTED | SUCCEEDED | ABORTED | REJECTED
  | PREEMPTING | RECALLING | RECALLED | LOST

record Quaternion =
  quat_x :: real
  quat_y :: real
  quat_z :: real
  quat_w :: real

record Point =
  point_x :: real
  point_y :: real
  point_z :: real

record Pose =
  position :: Point
  orientation :: Quaternion

record Header =
  header_seq :: nat
  stamp :: nat
  frame_id :: string

record PoseStamped =
  header :: Header
  pose :: Pose

record MoveBaseGoal =
  target_pose :: PoseStamped

text \<open>
  What the process does to the outside, in order: text printed on standard output, the
  registration of the node, a goal sent to the action server, a line logged through
  rospy at info or at error severity.
\<close>

datatype event = Stdout string | InitNode string | SendGoal MoveBaseGoal
  | LogInfo string | LogErr string

fun sent_goals :: "event list \<Rightarrow> MoveBaseGoal list" where
  "sent_goals [] = []"
| "sent_goals (SendGoal m # es) = m # sent_goals es"
| "sent_goals (e # es) = sent_goals es"

text \<open>
  What the outside gives back. \<open>str_goal\<close>, \<open>str_goals\<close> and \<open>str_msg\<close> are Python's
  \<open>str\<close> of a goal tuple, of the list of goals and of a message; \<open>time_now\<close> is
  \<open>rospy.Time.now()\<close> after the events so far; \<open>server_ready\<close> tells whether
  \<open>wait_for_server\<close> returns; \<open>goal_result k\<close> is the state \<open>get_state\<close> reports
  once \<open>wait_for_result\<close> has returned for the goal sent after \<open>k\<close> earlier ones, and
  \<open>None\<close> if \<open>wait_for_result\<close> never returns for it.
\<close>

record ros =
  str_goal :: "goal \<Rightarrow> string"
  str_goals :: "goal list \<Rightarrow> string"
  str_msg :: "MoveBaseGoal \<Rightarrow> string"
  time_now :: "event list \<Rightarrow> nat"
  server_ready :: bool
  goal_result :: "nat \<Rightarrow> GoalStatus option"

text \<open>A call either returns, or blocks for ever; both with the events up to then.\<close>

datatype run = Returns (trace_of: "event list") | Blocks (trace_of: "event list")

section \<open>GoalsSequencer\<close>

record GoalsSequencer =
  GoalFrameId :: string

definition GoalsSequencer_init :: "ros \<Rightarrow> string \<Rightarrow> event list \<Rightarrow> GoalsSequencer \<times> run" where
  "GoalsSequencer_init r goalFrameId tr =
     (let self = \<lparr>GoalFrameId = goalFrameId\<rparr>;
          tr1 = tr @ [InitNode ''goalsSequencer'']
      in if server_ready r then (self, Returns tr1) else (self, Blocks tr1))"

text \<open>
  Modelled from the spec: \<open>tf.transformations.quaternion_about_axis\<close>, a library
  function that is not part of the repository. It returns the unit quaternion
  \<open>(x, y, z, w)\<close> of the rotation by \<open>angle\<close> about \<open>axis\<close>, by the half-angle formula:
  the normalised axis scaled by the sine of half the angle, and the cosine of half the
  angle.
\<close>

definition quaternion_about_axis :: "real \<Rightarrow> real \<times> real \<times> real \<Rightarrow> real \<times> real \<times> real \<times> real" where
  "quaternion_about_axis angle axis =
     (case axis of (ax, ay, az) \<Rightarrow>
        let qlen = sqrt (ax * ax + ay * ay + az * az);
            s = sin (angle / 2) / qlen
        in (ax * s, ay * s, az * s, cos (angle / 2)))"

definition array_to_quaternion :: "real \<times> real \<times> real \<times> real \<Rightarrow> Quaternion" where
  "array_to_quaternion nparr =
     (case nparr of (n0, n1, n2, n3) \<Rightarrow>
        \<lparr>quat_x = n0, quat_y = n1, quat_z = n2, quat_w = n3\<rparr>)"

text \<open>
  The message \<open>CreateMoveBaseGoal\<close> builds for a goal, given the time stamp: the fields
  the source does not assign keep the defaults of a fresh message (zero).
\<close>

definition request :: "GoalsSequencer \<Rightarrow> nat \<Rightarrow> goal \<Rightarrow> MoveBaseGoal" where
  "request self now goal =
     (case goal of (x, y, theta) \<Rightarrow>
        let quaternionArray = quaternion_about_axis theta (0, 0, 1)
        in \<lparr>target_pose =
             \<lparr>header = \<lparr>header_seq = 0, stamp = now, frame_id = GoalFrameId self\<rparr>,
              pose = \<lparr>position = \<lparr>point_x = x, point_y = y, point_z = 0\<rparr>,
                      orientation = array_to_quaternion quaternionArray\<rparr>\<rparr>\<rparr>)"

definition CreateMoveBaseGoal :: "ros \<Rightarrow> GoalsSequencer \<Rightarrow> goal \<Rightarrow> event list
    \<Rightarrow> MoveBaseGoal \<times> event list" where
  "CreateMoveBaseGoal r self goal tr =
     (let moveBaseGoal = request self (time_now r tr) goal
      in (moveBaseGoal, tr @ [Stdout (str_msg r moveBaseGoal)]))"

definition NavigateToGoal :: "ros \<Rightarrow> GoalsSequencer \<Rightarrow> goal \<Rightarrow> event list \<Rightarrow> run" where
  "NavigateToGoal r self goal tr =
     (case CreateMoveBaseGoal r self goal tr of (moveBaseGoal, tr1) \<Rightarrow>
        let tr2 = tr1 @ [SendGoal moveBaseGoal] in
        (case goal_result r (length (sent_goals tr1)) of
           None \<Rightarrow> Blocks tr2
         | Some state \<Rightarrow>
             if state = SUCCEEDED then Returns (tr2 @ [LogInfo ''Goal reached''])
             else Returns (tr2 @ [LogErr ''Could not execute goal for some reason''])))"

fun NavigateToGoals :: "ros \<Rightarrow> GoalsSequencer \<Rightarrow> goal list \<Rightarrow> event list \<Rightarrow> run" where
  "NavigateToGoals r self [] tr = Returns tr"
| "NavigateToGoals r self (goal # rest) tr =
     (case NavigateToGoal r self goal
             (tr @ [Stdout (''Navigating to goal '' @ str_goal r goal)]) of
        Blocks tr' \<Rightarrow> Blocks tr'
      | Returns tr' \<Rightarrow> NavigateToGoals r self rest tr')"

section \<open>The main program\<close>

text \<open>
  The path of the goals file is the first command-line argument if there is one. An
  exception that \<open>Parse\<close> raises is not caught: the process ends before anything is
  printed, before the node is registered and before any goal is sent.
\<close>

datatype exit = Exit_normally | Uncaught error | Never_exits

definition goalsFilePath :: "string list \<Rightarrow> string" where
  "goalsFilePath argv = (if length argv > 1 then argv ! 1 else ''./nodes/goals.txt'')"

definition main :: "(string \<Rightarrow> real option) \<Rightarrow> (string \<Rightarrow> string option) \<Rightarrow> ros \<Rightarrow> string list
    \<Rightarrow> exit \<times> event list" where
  "main flt fs r argv =
     (let goalsFileParser = \<lparr>GoalsFilePath = None\<rparr>
      in case fst (Parse flt fs goalsFileParser (goalsFilePath argv)) of
           Inl e \<Rightarrow> (Uncaught e, [])
         | Inr goals \<Rightarrow>
             (case GoalsSequencer_init r ''/map'' [Stdout (str_goals r goals)] of
                (goalsSequencer, Blocks tr) \<Rightarrow> (Never_exits, tr)
              | (goalsSequencer, Returns tr) \<Rightarrow>
                  (case NavigateToGoals r goalsSequencer goals tr of
                     Blocks tr' \<Rightarrow> (Never_exits, tr')
                   | Returns tr' \<Rightarrow> (Exit_normally, tr'))))"

section \<open>Notions of the specification\<close>

text \<open>A line is ignored when its trimmed content is a comment or is empty.\<close>

definition is_ignored :: "string \<Rightarrow> bool" where
  "is_ignored line = (py_startswith (py_strip line) ''//'' \<or> py_strip line = [])"

text \<open>The comma-separated fields of a line, and the names expected at their positions.\<close>

definition line_fields :: "string \<Rightarrow> string list" where
  "line_fields line = py_split CHR '','' (py_strip line)"

definition expected_names :: "string list" where
  "expected_names = [''x'', ''y'', ''theta'']"

text \<open>The trimmed text of a field before its first equals sign.\<close>

definition found_name :: "string \<Rightarrow> string" where
  "found_name f = (case py_split CHR ''='' f of [] \<Rightarrow> [] | n # rest \<Rightarrow> py_strip n)"

text \<open>
  What the code accepts as the field \<open>name = v\<close>: the expected name before the first
  equals sign and a float between the first and the second one, if there is a second.
\<close>

definition field_ok :: "(string \<Rightarrow> 'v option) \<Rightarrow> string \<Rightarrow> string \<Rightarrow> 'v \<Rightarrow> bool" where
  "field_ok flt name f v =
     (case py_split CHR ''='' f of
        n # w # rest \<Rightarrow> py_strip n = name \<and> flt (py_strip w) = Some v
      | _ \<Rightarrow> False)"

text \<open>
  The record grammar in the words of the specification: exactly three comma-separated
  fields, each \<open>name = float\<close> with the names \<open>x\<close>, \<open>y\<close>, \<open>theta\<close> in this order.
\<close>

definition spec_field :: "(string \<Rightarrow> 'v option) \<Rightarrow> string \<Rightarrow> string \<Rightarrow> 'v option" where
  "spec_field flt name f =
     (case py_split CHR ''='' f of
        [n, w] \<Rightarrow> if py_strip n = name then flt (py_strip w) else None
      | _ \<Rightarrow> None)"

definition spec_record :: "(string \<Rightarrow> 'v option) \<Rightarrow> string \<Rightarrow> ('v \<times> 'v \<times> 'v) option" where
  "spec_record flt line =
     (case py_split CHR '','' (py_strip line) of
        [a, b, c] \<Rightarrow>
          (case spec_field flt ''x'' a of None \<Rightarrow> None | Some x \<Rightarrow>
          (case spec_field flt ''y'' b of None \<Rightarrow> None | Some y \<Rightarrow>
          (case spec_field flt ''theta'' c of None \<Rightarrow> None | Some theta \<Rightarrow>
           Some (x, y, theta))))
      | _ \<Rightarrow> None)"

definition well_formed_file :: "(string \<Rightarrow> 'v option) \<Rightarrow> string \<Rightarrow> bool" where
  "well_formed_file flt content =
     list_all (\<lambda>line. is_ignored line \<or> spec_record flt line \<noteq> None) (file_lines content)"

text \<open>
  A line from which the parser reads a NaN: a record line with, among its first three
  fields, one whose text between the first and the second equals sign is read as NaN.
\<close>

definition has_nan :: "float64 \<times> float64 \<times> float64 \<Rightarrow> bool" where
  "has_nan g = (case g of (x, y, theta) \<Rightarrow> x = NaN \<or> y = NaN \<or> theta = NaN)"

definition reads_nan :: "(string \<Rightarrow> float64 option) \<Rightarrow> string \<Rightarrow> bool" where
  "reads_nan flt line =
     (\<not> is_ignored line \<and>
      list_ex (\<lambda>f. case py_split CHR ''='' f of
                     n # w # rest \<Rightarrow> flt (py_strip w) = Some NaN
                   | _ \<Rightarrow> False)
        (take 3 (line_fields line)))"

text \<open>
  The navigation request of the specification for a goal: the position \<open>(x, y)\<close>, the
  orientation by the half-angle formula, the frame identifier and the time stamp.
\<close>

definition navigation_request :: "string \<Rightarrow> nat \<Rightarrow> goal \<Rightarrow> MoveBaseGoal" where
  "navigation_request frame now goal =
     (case goal of (x, y, theta) \<Rightarrow>
        \<lparr>target_pose =
           \<lparr>header = \<lparr>header_seq = 0, stamp = now, frame_id = frame\<rparr>,
            pose = \<lparr>position = \<lparr>point_x = x, point_y = y, point_z = 0\<rparr>,
                    orientation = \<lparr>quat_x = 0, quat_y = 0, quat_z = sin (theta / 2),
                                   quat_w = cos (theta / 2)\<rparr>\<rparr>\<rparr>\<rparr>)"

text \<open>
  What is seen of one goal that is attempted after the events \<open>before\<close>: up to its
  submission, the announcement, the printed request and the request sent, stamped with
  the time after the announcement; and as a whole, when the server reports \<open>state\<close>,
  these followed by the outcome line.
\<close>

definition goal_submission :: "ros \<Rightarrow> string \<Rightarrow> goal \<Rightarrow> event list \<Rightarrow> event list" where
  "goal_submission r frame goal before =
     (let announcement = Stdout (''Navigating to goal '' @ str_goal r goal);
          m = navigation_request frame (time_now r (before @ [announcement])) goal
      in [announcement, Stdout (str_msg r m), SendGoal m])"

definition goal_block :: "ros \<Rightarrow> string \<Rightarrow> goal \<Rightarrow> event list \<Rightarrow> GoalStatus \<Rightarrow> event list" where
  "goal_block r frame goal before state =
     goal_submission r frame goal before
       @ [if state = SUCCEEDED then LogInfo ''Goal reached''
          else LogErr ''Could not execute goal for some reason'']"

text \<open>The outcome lines of a trace, and the line expected for a reported state.\<close>

fun is_outcome_log :: "event \<Rightarrow> bool" where
  "is_outcome_log (LogInfo s) = True"
| "is_outcome_log (LogErr s) = True"
| "is_outcome_log e = False"

definition outcome_logs :: "event list \<Rightarrow> event list" where
  "outcome_logs tr = filter is_outcome_log tr"

definition expected_log :: "GoalStatus \<Rightarrow> event" where
  "expected_log state =
     (if state = SUCCEEDED then LogInfo ''Goal reached''
      else LogErr ''Could not execute goal for some reason'')"

text \<open>
  The events of one goal, processed after the events \<open>tr\<close>, when the server reports
  \<open>state\<close> for it: the announcement, the printed message, the request and the outcome.
\<close>

definition goal_events :: "ros \<Rightarrow> GoalsSequencer \<Rightarrow> goal \<Rightarrow> event list \<Rightarrow> GoalStatus \<Rightarrow> event list" where
  "goal_events r self goal tr state =
     (let announcement = Stdout (''Navigating to goal '' @ str_goal r goal);
          m = request self (time_now r (tr @ [announcement])) goal
      in [announcement, Stdout (str_msg r m), SendGoal m, expected_log state])"

text \<open>What a process prints or logs: everything but the requests it sends.\<close>

fun is_emission :: "event \<Rightarrow> bool" where
  "is_emission (SendGoal m) = False"
| "is_emission e = True"

section \<open>Concrete inputs\<close>

text \<open>
  A world in which the action server reports success, failure, success for the first
  three goals and success afterwards, with a clock that counts the events so far and
  fixed renderings of goals and messages.
\<close>

definition ros_demo :: ros where
  "ros_demo =
     \<lparr>str_goal = (\<lambda>g. ''(goal)''),
      str_goals = (\<lambda>gs. ''[goals]''),
      str_msg = (\<lambda>m. ''target_pose''),
      time_now = length,
      server_ready = True,
      goal_result = (\<lambda>k. if k = 1 then Some ABORTED else Some SUCCEEDED)\<rparr>"

text \<open>The same world, but the server never reports on the second goal.\<close>

definition ros_stuck :: ros where
  "ros_stuck = ros_demo\<lparr>goal_result := (\<lambda>k. if k = 1 then None else Some SUCCEEDED)\<rparr>"

definition sequencer_demo :: GoalsSequencer where
  "sequencer_demo = \<lparr>GoalFrameId = ''/map''\<rparr>"

definition parser_demo :: GoalsFileParser where
  "parser_demo = \<lparr>GoalsFilePath = None\<rparr>"

text \<open>Goal files: a good one, one of comments and blank lines, two bad ones, and one with a
  NaN.\<close>

definition goals_txt :: string where
  "goals_txt = ''// End of first hall way leg'' @ [CHR 0x0A]
     @ ''x = 1.5, y = -2.25, theta = 0.0'' @ [CHR 0x0A]
     @ [CHR 0x0A]
     @ ''x = 2.3, y = 0.4, theta = 1.1''"

definition comments_txt :: string where
  "comments_txt = ''// nothing here'' @ [CHR 0x0A] @ ''   '' @ [CHR 0x0A]"

definition swapped_txt :: string where
  "swapped_txt = ''x = 1.5, y = -2.25, theta = 0.0'' @ [CHR 0x0A]
     @ ''y = 1.5, x = -2.25, theta = 0.0'' @ [CHR 0x0A]"

definition letters_txt :: string where
  "letters_txt = ''x = abc, y = 1.0, theta = 0.0'' @ [CHR 0x0A]"

definition nan_txt :: string where
  "nan_txt = ''x = nan, y = 0.0, theta = 0.0'' @ [CHR 0x0A]"

definition fs_demo :: "string \<Rightarrow> string option" where
  "fs_demo path =
     (if path = ''goals.txt'' then Some goals_txt
      else if path = ''comments.txt'' then Some comments_txt
      else if path = ''swapped.txt'' then Some swapped_txt
      else if path = ''letters.txt'' then Some letters_txt
      else if path = ''nan.txt'' then Some nan_txt
      else None)"

section \<open>The parser: auxiliary facts\<close>

lemma py_split_not_Nil: "py_split sep s \<noteq> []"
  by (induction s) (auto split: list.splits)

lemma index_Nil: "index [] i = Inl IndexError"
  by (simp add: index_def)

lemma index_Cons: "index (x # xs) i = (if i = 0 then Inr x else index xs (i - 1))"
  by (cases i) (simp_all add: index_def)

lemma ParseLine_ignored: "is_ignored l \<Longrightarrow> ParseLine flt l = Inr None"
  by (auto simp: ParseLine_def is_ignored_def Let_def)

lemma ParseLine_not_ignored: "\<not> is_ignored l \<Longrightarrow> ParseLine flt l \<noteq> Inr None"
  by (auto simp: ParseLine_def is_ignored_def Let_def split: sum.splits)

lemma ParseLine_None_iff: "(ParseLine flt l = Inr None) = is_ignored l"
  using ParseLine_ignored ParseLine_not_ignored by blast

lemma ExtractValue_Inr_iff: "(ExtractValue flt name f = Inr v) = field_ok flt name f v"
  by (cases "py_split CHR ''='' f")
     (auto simp: ExtractValue_def field_ok_def Let_def index_Cons index_Nil py_split_not_Nil
           split: list.splits option.splits sum.splits)

text \<open>The body of ParseLine on a record line, by the number of its fields.\<close>

lemma ParseLine_fields1:
  "\<not> is_ignored l \<Longrightarrow> line_fields l = [p0] \<Longrightarrow>
   ParseLine flt l = (case ExtractValue flt ''x'' p0 of Inl e \<Rightarrow> Inl e | Inr x \<Rightarrow> Inl IndexError)"
  by (simp add: ParseLine_def is_ignored_def line_fields_def Let_def index_Cons index_Nil split: sum.splits)

lemma ParseLine_fields2:
  "\<not> is_ignored l \<Longrightarrow> line_fields l = [p0, p1] \<Longrightarrow>
   ParseLine flt l =
     (case ExtractValue flt ''x'' p0 of Inl e \<Rightarrow> Inl e | Inr x \<Rightarrow>
     (case ExtractValue flt ''y'' p1 of Inl e \<Rightarrow> Inl e | Inr y \<Rightarrow> Inl IndexError))"
  by (simp add: ParseLine_def is_ignored_def line_fields_def Let_def index_Cons index_Nil split: sum.splits)

lemma ParseLine_fields3:
  "\<not> is_ignored l \<Longrightarrow> line_fields l = p0 # p1 # p2 # rest \<Longrightarrow>
   ParseLine flt l =
     (case ExtractValue flt ''x'' p0 of Inl e \<Rightarrow> Inl e | Inr x \<Rightarrow>
     (case ExtractValue flt ''y'' p1 of Inl e \<Rightarrow> Inl e | Inr y \<Rightarrow>
     (case ExtractValue flt ''theta'' p2 of Inl e \<Rightarrow> Inl e | Inr theta \<Rightarrow>
      Inr (Some (x, y, theta)))))"
  by (simp add: ParseLine_def is_ignored_def line_fields_def Let_def index_Cons index_Nil split: sum.splits)

lemma fields_cases:
  obtains p0 where "line_fields l = [p0]"
  | p0 p1 where "line_fields l = [p0, p1]"
  | p0 p1 p2 rest where "line_fields l = p0 # p1 # p2 # rest"
proof (cases "line_fields l")
  case Nil
  then show ?thesis by (simp add: line_fields_def py_split_not_Nil)
next
  case c1: (Cons p0 r0)
  show ?thesis
  proof (cases r0)
    case Nil
    with c1 that(1) show ?thesis by simp
  next
    case c2: (Cons p1 r1)
    show ?thesis
    proof (cases r1)
      case Nil
      with c1 c2 that(2) show ?thesis by simp
    next
      case (Cons p2 r2)
      with c1 c2 that(3) show ?thesis by simp
    qed
  qed
qed

lemma ParseLine_Some_iff:
  "(ParseLine flt l = Inr (Some (x, y, theta))) =
     (\<not> is_ignored l \<and>
      (\<exists>p0 p1 p2 rest. line_fields l = p0 # p1 # p2 # rest
          \<and> field_ok flt ''x'' p0 x \<and> field_ok flt ''y'' p1 y \<and> field_ok flt ''theta'' p2 theta))"
proof (cases "is_ignored l")
  case True
  then show ?thesis by (simp add: ParseLine_ignored)
next
  case False
  show ?thesis
  proof (cases l rule: fields_cases)
    case (1 p0)
    with False show ?thesis
      by (simp add: ParseLine_fields1 split: sum.splits)
  next
    case (2 p0 p1)
    with False show ?thesis
      by (simp add: ParseLine_fields2 split: sum.splits)
  next
    case (3 p0 p1 p2 rest)
    with False show ?thesis
      by (auto simp add: ParseLine_fields3 ExtractValue_Inr_iff [symmetric] split: sum.splits)
  qed
qed

lemma spec_field_field_ok: "spec_field flt name f = Some v \<Longrightarrow> field_ok flt name f v"
  by (auto simp: spec_field_def field_ok_def split: list.splits if_splits)

lemma spec_record_ParseLine:
  assumes "spec_record flt l = Some g" and "\<not> is_ignored l"
  shows "ParseLine flt l = Inr (Some g)"
proof -
  obtain x y theta where g: "g = (x, y, theta)" by (cases g) auto
  from assms(1) obtain a b c where f: "line_fields l = [a, b, c]"
    and "spec_field flt ''x'' a = Some x" "spec_field flt ''y'' b = Some y"
      "spec_field flt ''theta'' c = Some theta"
    by (auto simp: spec_record_def line_fields_def g split: list.splits option.splits)
  then show ?thesis
    using assms(2) by (simp add: g ParseLine_Some_iff spec_field_field_ok)
qed

lemma Parse_loop_well_formed:
  "list_all (\<lambda>l. is_ignored l \<or> spec_record flt l \<noteq> None) ls \<Longrightarrow>
   \<exists>gs. Parse_loop flt ls acc = Inr (acc @ gs)
      \<and> map Some gs = map (spec_record flt) (filter (\<lambda>l. \<not> is_ignored l) ls)"
proof (induction ls arbitrary: acc)
  case Nil
  then show ?case by simp
next
  case (Cons l ls)
  show ?case
  proof (cases "is_ignored l")
    case True
    with Cons show ?thesis by (simp add: ParseLine_ignored)
  next
    case False
    with Cons.prems obtain g where g: "spec_record flt l = Some g" by auto
    from Cons.prems have "list_all (\<lambda>l. is_ignored l \<or> spec_record flt l \<noteq> None) ls" by simp
    from Cons.IH [OF this, of "acc @ [g]"] obtain gs where
      "Parse_loop flt ls (acc @ [g]) = Inr ((acc @ [g]) @ gs)"
      "map Some gs = map (spec_record flt) (filter (\<lambda>l. \<not> is_ignored l) ls)" by blast
    then have "Parse_loop flt (l # ls) acc = Inr (acc @ (g # gs))
      \<and> map Some (g # gs) = map (spec_record flt) (filter (\<lambda>l. \<not> is_ignored l) (l # ls))"
      using False g by (simp add: spec_record_ParseLine)
    then show ?thesis by blast
  qed
qed

lemma Parse_loop_error:
  "l \<in> set ls \<Longrightarrow> ParseLine flt l = Inl e \<Longrightarrow>
   \<exists>l' e'. l' \<in> set ls \<and> ParseLine flt l' = Inl e' \<and> Parse_loop flt ls acc = Inl e'"
proof (induction ls arbitrary: acc)
  case Nil
  then show ?case by simp
next
  case (Cons a ls)
  show ?case
  proof (cases "ParseLine flt a")
    case (Inl e0)
    then show ?thesis by auto
  next
    case (Inr r)
    with Cons.prems have "l \<in> set ls" by auto
    from Cons.IH [OF this Cons.prems(2)] show ?thesis
      using Inr by (cases r) (auto, metis+)
  qed
qed

lemma Parse_loop_first_error:
  "\<forall>p \<in> set pre. \<not> isl (ParseLine flt p) \<Longrightarrow> ParseLine flt l = Inl e \<Longrightarrow>
   Parse_loop flt (pre @ l # post) acc = Inl e"
proof (induction pre arbitrary: acc)
  case Nil
  then show ?case by simp
next
  case (Cons a pre)
  then show ?case by (cases "ParseLine flt a") (auto split: option.splits)
qed

lemma Parse_loop_filter:
  "Parse_loop flt (filter (\<lambda>l. \<not> is_ignored l) ls) acc = Parse_loop flt ls acc"
  by (induction ls arbitrary: acc) (auto simp: ParseLine_ignored split: sum.splits option.splits)

lemma Parse_opened:
  "fs path = Some content \<Longrightarrow>
   fst (Parse flt fs self path) = Parse_loop flt (file_lines content) []"
  by (simp add: Parse_def Let_def)

lemma ExtractValue_wrong_name:
  "found_name f \<noteq> name \<Longrightarrow>
   ExtractValue flt name f =
     Inl (NameError (''Expected variable name '' @ name @ '' but found '' @ found_name f))"
  by (cases "py_split CHR ''='' f")
     (simp_all add: ExtractValue_def found_name_def Let_def index_Cons index_Nil py_split_not_Nil)

lemma ExtractValue_bad_value:
  "py_split CHR ''='' f = n # w # rest \<Longrightarrow> py_strip n = name \<Longrightarrow> flt (py_strip w) = None \<Longrightarrow>
   ExtractValue flt name f = Inl (ValueError (py_strip w))"
  by (simp add: ExtractValue_def Let_def index_Cons)

lemma ExtractValue_no_equals:
  "py_split CHR ''='' f = [n] \<Longrightarrow> py_strip n = name \<Longrightarrow>
   ExtractValue flt name f = Inl IndexError"
  by (simp add: ExtractValue_def Let_def index_Cons index_Nil)

text \<open>A failure of field i, after the fields before it were extracted, is the failure of the line.\<close>

lemma ParseLine_field_error:
  assumes "\<not> is_ignored l" and "i < 3" and "i < length (line_fields l)"
    and "\<forall>j<i. \<exists>v. ExtractValue flt (expected_names ! j) (line_fields l ! j) = Inr v"
    and "ExtractValue flt (expected_names ! i) (line_fields l ! i) = Inl e"
  shows "ParseLine flt l = Inl e"
proof -
  from assms(2) consider "i = 0" | "i = 1" | "i = 2" by linarith
  then show ?thesis
  proof cases
    case 1
    with assms show ?thesis
      by (cases l rule: fields_cases)
         (simp_all add: ParseLine_fields1 ParseLine_fields2 ParseLine_fields3 expected_names_def)
  next
    case 2
    with assms(4) obtain v0 where "ExtractValue flt ''x'' (line_fields l ! 0) = Inr v0"
      by (auto simp: expected_names_def)
    with 2 assms show ?thesis
      by (cases l rule: fields_cases)
         (simp_all add: ParseLine_fields1 ParseLine_fields2 ParseLine_fields3 expected_names_def)
  next
    case 3
    with assms(4) [rule_format, of 0] assms(4) [rule_format, of 1]
    obtain v0 v1 where "ExtractValue flt ''x'' (line_fields l ! 0) = Inr v0"
      "ExtractValue flt ''y'' (line_fields l ! 1) = Inr v1"
      by (auto simp: expected_names_def)
    with 3 assms show ?thesis
      by (cases l rule: fields_cases)
         (simp_all add: ParseLine_fields1 ParseLine_fields2 ParseLine_fields3 expected_names_def)
  qed
qed


lemma main_parse_error:
  "fst (Parse flt fs self (goalsFilePath argv)) = Inl e \<Longrightarrow> main flt fs r argv = (Uncaught e, [])"
  by (cases "fs (goalsFilePath argv)") (simp_all add: main_def Parse_def Let_def)

text \<open>Equality of parsed goals, and where a NaN among them comes from.\<close>

lemma goal_eq_same: "goal_eq g g = (\<not> has_nan g)"
  by (cases g) (auto simp: goal_eq_def float_eq_def has_nan_def)

lemma goals_eq_same: "goals_eq gs gs = (\<forall>g \<in> set gs. \<not> has_nan g)"
  by (simp add: goals_eq_def list_all2_same goal_eq_same)

lemma Parse_loop_Inr_set:
  "Parse_loop flt ls acc = Inr gs \<Longrightarrow>
   set gs = set acc \<union> {g. \<exists>l \<in> set ls. ParseLine flt l = Inr (Some g)}"
proof (induction ls arbitrary: acc)
  case Nil
  then show ?case by simp
next
  case (Cons l ls)
  show ?case
  proof (cases "ParseLine flt l")
    case (Inl e)
    with Cons.prems show ?thesis by simp
  next
    case (Inr r)
    show ?thesis
    proof (cases r)
      case None
      with Inr Cons show ?thesis by auto
    next
      case (Some g)
      with Inr Cons.prems have "Parse_loop flt ls (acc @ [g]) = Inr gs" by simp
      from Cons.IH [OF this] Inr Some show ?thesis by auto
    qed
  qed
qed

lemma Parse_loop_Inr_no_error:
  "Parse_loop flt ls acc = Inr gs \<Longrightarrow> l \<in> set ls \<Longrightarrow> ParseLine flt l \<noteq> Inl e"
  using Parse_loop_error [of l ls flt e acc] by auto

lemma ParseLine_reads_nan:
  assumes "ParseLine flt l = Inr (Some g)"
  shows "has_nan g = reads_nan flt l"
proof -
  obtain x y theta where g: "g = (x, y, theta)" by (cases g) auto
  from assms [unfolded g ParseLine_Some_iff] obtain p0 p1 p2 rest where
    i: "\<not> is_ignored l" and f: "line_fields l = p0 # p1 # p2 # rest"
    and ok: "field_ok flt ''x'' p0 x" "field_ok flt ''y'' p1 y" "field_ok flt ''theta'' p2 theta"
    by blast
  from ok show ?thesis
    by (auto simp: has_nan_def reads_nan_def g i f field_ok_def split: list.splits)
qed

lemma Parse_loop_nan:
  assumes "Parse_loop flt ls [] = Inr gs"
  shows "(\<exists>g \<in> set gs. has_nan g) = list_ex (reads_nan flt) ls"
proof
  assume "\<exists>g \<in> set gs. has_nan g"
  then obtain g where g: "g \<in> set gs" "has_nan g" by blast
  with Parse_loop_Inr_set [OF assms] obtain l where
    l: "l \<in> set ls" "ParseLine flt l = Inr (Some g)" by auto
  with g(2) have "reads_nan flt l" by (simp add: ParseLine_reads_nan)
  with l(1) show "list_ex (reads_nan flt) ls" by (auto simp: list_ex_iff)
next
  assume "list_ex (reads_nan flt) ls"
  then obtain l where l: "l \<in> set ls" "reads_nan flt l" by (auto simp: list_ex_iff)
  then have "\<not> is_ignored l" by (simp add: reads_nan_def)
  then have "ParseLine flt l \<noteq> Inr None" by (rule ParseLine_not_ignored)
  moreover have "\<And>e. ParseLine flt l \<noteq> Inl e"
    using Parse_loop_Inr_no_error [OF assms l(1)] .
  ultimately obtain g where pl: "ParseLine flt l = Inr (Some g)"
    by (cases "ParseLine flt l") auto
  with l(2) have "has_nan g" by (simp add: ParseLine_reads_nan)
  moreover from pl l(1) Parse_loop_Inr_set [OF assms] have "g \<in> set gs" by auto
  ultimately show "\<exists>g \<in> set gs. has_nan g" by blast
qed

section \<open>The parser: the claims\<close>

text \<open>
  C2. For every well-formed file (each line is a comment, blank, or a record of the
  grammar), \<open>Parse\<close> returns one goal for each line that is neither a comment nor
  blank, in the order of the lines, each the record the grammar reads from its line; a
  file of comments and blank lines only parses to the empty list.
\<close>

theorem Parse_well_formed:
  assumes "fs path = Some content" and "well_formed_file flt content"
  shows "\<exists>gs. fst (Parse flt fs self path) = Inr gs
    \<and> map Some gs = map (spec_record flt) (filter (\<lambda>l. \<not> is_ignored l) (file_lines content))
    \<and> length gs = length (filter (\<lambda>l. \<not> is_ignored l) (file_lines content))
    \<and> (list_all is_ignored (file_lines content) \<longrightarrow> gs = [])"
proof -
  from assms(2) have "list_all (\<lambda>l. is_ignored l \<or> spec_record flt l \<noteq> None) (file_lines content)"
    by (simp add: well_formed_file_def)
  from Parse_loop_well_formed [OF this, of "[]"] obtain gs where
    gs: "Parse_loop flt (file_lines content) [] = Inr gs"
      "map Some gs = map (spec_record flt) (filter (\<lambda>l. \<not> is_ignored l) (file_lines content))"
    by auto
  from gs(2) have len: "length gs = length (filter (\<lambda>l. \<not> is_ignored l) (file_lines content))"
    by (metis length_map)
  have "list_all is_ignored (file_lines content) \<longrightarrow> gs = []"
  proof
    assume "list_all is_ignored (file_lines content)"
    then have "filter (\<lambda>l. \<not> is_ignored l) (file_lines content) = []"
      by (simp add: list_all_iff filter_empty_conv)
    with len show "gs = []" by simp
  qed
  with gs len show ?thesis
    using assms(1) by (simp add: Parse_opened)
qed

theorem Parse_well_formed_witness:
  "fs_demo ''goals.txt'' = Some goals_txt \<and> well_formed_file py_float goals_txt
   \<and> fst (Parse py_float fs_demo parser_demo ''goals.txt'') = Inr [(3 / 2, - 9 / 4, 0), (23 / 10, 2 / 5, 11 / 10)]
   \<and> fs_demo ''comments.txt'' = Some comments_txt \<and> well_formed_file py_float comments_txt
   \<and> fst (Parse py_float fs_demo parser_demo ''comments.txt'') = Inr []"
proof -
  have f1: "fs_demo ''goals.txt'' = Some goals_txt" by (simp add: fs_demo_def)
  have w1: "well_formed_file py_float goals_txt" by code_simp
  have r1: "map (spec_record py_float) (filter (\<lambda>l. \<not> is_ignored l) (file_lines goals_txt))
      = [Some (3 / 2, - 9 / 4, 0), Some (23 / 10, 2 / 5, 11 / 10)]" by code_simp
  have f2: "fs_demo ''comments.txt'' = Some comments_txt" by (simp add: fs_demo_def)
  have w2: "well_formed_file py_float comments_txt" by code_simp
  have r2: "list_all is_ignored (file_lines comments_txt)" by code_simp
  from Parse_well_formed [where fs = fs_demo and path = "''goals.txt''" and self = parser_demo, OF f1 w1] r1
  have p1: "fst (Parse py_float fs_demo parser_demo ''goals.txt'') = Inr [(3 / 2, - 9 / 4, 0), (23 / 10, 2 / 5, 11 / 10)]"
    by (auto simp: map_eq_Cons_conv)
  from Parse_well_formed [where fs = fs_demo and path = "''comments.txt''" and self = parser_demo, OF f2 w2] r2
  have p2: "fst (Parse py_float fs_demo parser_demo ''comments.txt'') = Inr []"
    by auto
  from f1 w1 p1 f2 w2 p2 show ?thesis by blast
qed

text \<open>
  C3, as amended. A line is accepted as the record \<open>(x, y, theta)\<close> exactly when it is
  not ignored, has at least three comma-separated fields, and its first three fields
  are, in this order, \<open>x\<close>, \<open>y\<close> and \<open>theta\<close> fields with these values: the expected
  name before the first equals sign and a float between the first and the second one.
  Fields after the third are not looked at. A line of the file on which \<open>ParseLine\<close>
  fails makes \<open>Parse\<close> fail as a whole, with the error of a failing line: no list of
  goals is returned and no line is skipped.
\<close>

theorem ParseLine_accepts_iff:
  "(ParseLine flt l = Inr (Some (x, y, theta))) =
     (\<not> is_ignored l \<and>
      (\<exists>p0 p1 p2 rest. line_fields l = p0 # p1 # p2 # rest
          \<and> field_ok flt ''x'' p0 x \<and> field_ok flt ''y'' p1 y \<and> field_ok flt ''theta'' p2 theta))
   \<and> (fs path = Some content \<longrightarrow> l \<in> set (file_lines content) \<longrightarrow> ParseLine flt l = Inl e \<longrightarrow>
        (\<exists>l' e'. l' \<in> set (file_lines content) \<and> ParseLine flt l' = Inl e'
            \<and> fst (Parse flt fs self path) = Inl e'))"
proof -
  have "\<exists>l' e'. l' \<in> set (file_lines content) \<and> ParseLine flt l' = Inl e'
            \<and> fst (Parse flt fs self path) = Inl e'"
    if "fs path = Some content" "l \<in> set (file_lines content)" "ParseLine flt l = Inl e"
    using Parse_loop_error [OF that(2,3), of "[]"] that(1) by (simp add: Parse_opened)
  then show ?thesis
    using ParseLine_Some_iff [of flt l x y theta] by blast
qed

text \<open>
  The second line of this file has its fields swapped; the first line is a good record,
  and still the parse yields the error and no goal.
\<close>

theorem ParseLine_accepts_iff_witness:
  "fs_demo ''swapped.txt'' = Some swapped_txt
   \<and> (''y = 1.5, x = -2.25, theta = 0.0'' @ [CHR 0x0A]) \<in> set (file_lines swapped_txt)
   \<and> ParseLine py_float (''y = 1.5, x = -2.25, theta = 0.0'' @ [CHR 0x0A])
        = Inl (NameError ''Expected variable name x but found y'')
   \<and> (\<exists>l' e'. l' \<in> set (file_lines swapped_txt) \<and> ParseLine py_float l' = Inl e'
            \<and> fst (Parse py_float fs_demo parser_demo ''swapped.txt'') = Inl e')"
proof -
  have f: "fs_demo ''swapped.txt'' = Some swapped_txt" by (simp add: fs_demo_def)
  have m: "(''y = 1.5, x = -2.25, theta = 0.0'' @ [CHR 0x0A]) \<in> set (file_lines swapped_txt)"
    by code_simp
  have p: "ParseLine py_float (''y = 1.5, x = -2.25, theta = 0.0'' @ [CHR 0x0A])
        = Inl (NameError ''Expected variable name x but found y'')"
    by code_simp
  from ParseLine_accepts_iff [where fs = fs_demo and path = "''swapped.txt''"
      and content = swapped_txt and flt = py_float and self = parser_demo
      and l = "''y = 1.5, x = -2.25, theta = 0.0'' @ [CHR 0x0A]"
      and e = "NameError ''Expected variable name x but found y''"] f m p
  show ?thesis by blast
qed

text \<open>
  C3 as stated fails: a record with a fourth comma-separated field is accepted.
\<close>

theorem four_fields_accepted:
  "ParseLine py_float ''x = 1.0, y = 2.0, theta = 3.0, z = 4.0'' = Inr (Some (1, 2, 3))
   \<and> length (line_fields ''x = 1.0, y = 2.0, theta = 3.0, z = 4.0'') = 4"
  by code_simp

text \<open>
  C4, as amended. On a line that is not ignored, if field \<open>i\<close> (one of the first three)
  has before its first equals sign a name other than the one expected at its position,
  and the fields before it were extracted without error, then \<open>ParseLine\<close> fails with
  the NameError whose message gives the expected and the found name.
\<close>

theorem ParseLine_wrong_name:
  assumes "\<not> is_ignored l" and "i < 3" and "i < length (line_fields l)"
    and "\<forall>j<i. \<exists>v. ExtractValue flt (expected_names ! j) (line_fields l ! j) = Inr v"
    and "found_name (line_fields l ! i) \<noteq> expected_names ! i"
  shows "ParseLine flt l =
     Inl (NameError (''Expected variable name '' @ expected_names ! i @ '' but found ''
           @ found_name (line_fields l ! i)))"
  using assms(1-4) ExtractValue_wrong_name [OF assms(5), of flt]
  by (rule ParseLine_field_error)

text \<open>
  The line of the specification with \<open>x\<close> and \<open>y\<close> swapped: \<open>x\<close> expected, \<open>y\<close> found.
\<close>

theorem ParseLine_wrong_name_witness:
  "\<not> is_ignored ''y = 1.5, x = -2.25, theta = 0.0''
   \<and> (0 :: nat) < length (line_fields ''y = 1.5, x = -2.25, theta = 0.0'')
   \<and> found_name (line_fields ''y = 1.5, x = -2.25, theta = 0.0'' ! 0) = ''y''
   \<and> expected_names ! 0 = ''x''
   \<and> ParseLine py_float ''y = 1.5, x = -2.25, theta = 0.0''
        = Inl (NameError ''Expected variable name x but found y'')"
proof -
  let ?l = "''y = 1.5, x = -2.25, theta = 0.0''"
  have a: "\<not> is_ignored ?l" by code_simp
  have b: "(0 :: nat) < length (line_fields ?l)" by code_simp
  have c: "found_name (line_fields ?l ! 0) = ''y''" by code_simp
  have d: "expected_names ! 0 = ''x''" by code_simp
  have e: "found_name (line_fields ?l ! 0) \<noteq> expected_names ! 0" by (simp add: c d)
  have "ParseLine py_float ?l =
     Inl (NameError (''Expected variable name '' @ expected_names ! 0 @ '' but found ''
           @ found_name (line_fields ?l ! 0)))"
    by (rule ParseLine_wrong_name [OF a _ b _ e]) simp_all
  then show ?thesis using a b c d by simp
qed

text \<open>
  C4 as stated fails: the second field is named \<open>z\<close> where \<open>y\<close> is expected, and the
  line fails with the ValueError of the first field, not with a NameError.
\<close>

theorem earlier_value_error_hides_wrong_name:
  "\<not> is_ignored ''x = abc, z = 1.0, theta = 0.0''
   \<and> found_name (line_fields ''x = abc, z = 1.0, theta = 0.0'' ! 1) = ''z''
   \<and> expected_names ! 1 = ''y''
   \<and> ParseLine py_float ''x = abc, z = 1.0, theta = 0.0'' = Inl (ValueError ''abc'')"
  by code_simp

text \<open>
  C5, as amended. On a line that is not ignored, if field \<open>i\<close> (one of the first three)
  has the expected name, the text between its first and its second equals sign is not
  a float, and the fields before it were extracted without error, then \<open>ParseLine\<close>
  fails with ValueError. If the line is in the goals file, \<open>Parse\<close> fails, and the main
  program ends with that uncaught error and without any event: no goal is attempted.
\<close>

theorem ParseLine_bad_value:
  assumes "\<not> is_ignored l" and "i < 3" and "i < length (line_fields l)"
    and "\<forall>j<i. \<exists>v. ExtractValue flt (expected_names ! j) (line_fields l ! j) = Inr v"
    and "py_split CHR ''='' (line_fields l ! i) = n # w # rest"
    and "py_strip n = expected_names ! i"
    and "flt (py_strip w) = None"
    and "fs (goalsFilePath argv) = Some content"
    and "l \<in> set (file_lines content)"
  shows "ParseLine flt l = Inl (ValueError (py_strip w))
    \<and> (\<exists>e. fst (Parse flt fs self (goalsFilePath argv)) = Inl e
          \<and> main flt fs r argv = (Uncaught e, []))"
proof -
  have line: "ParseLine flt l = Inl (ValueError (py_strip w))"
    using assms(1-4) ExtractValue_bad_value [where flt = flt, OF assms(5-7)]
    by (rule ParseLine_field_error)
  from Parse_loop_error [OF assms(9) line, of "[]"] obtain e where
    e: "Parse_loop flt (file_lines content) [] = Inl e" by blast
  have "fst (Parse flt fs self (goalsFilePath argv)) = Inl e"
    using assms(8) e by (simp add: Parse_opened)
  moreover have "fst (Parse flt fs \<lparr>GoalsFilePath = None\<rparr> (goalsFilePath argv)) = Inl e"
    using assms(8) e by (simp add: Parse_opened)
  then have "main flt fs r argv = (Uncaught e, [])"
    by (simp add: main_def Let_def)
  ultimately show ?thesis using line by blast
qed

text \<open>
  The line of the specification with the value \<open>abc\<close>, as the only line of a file.
\<close>

theorem ParseLine_bad_value_witness:
  "\<not> is_ignored (''x = abc, y = 1.0, theta = 0.0'' @ [CHR 0x0A])
   \<and> py_split CHR ''='' (line_fields (''x = abc, y = 1.0, theta = 0.0'' @ [CHR 0x0A]) ! 0) = [''x '', '' abc'']
   \<and> py_strip ''x '' = expected_names ! 0
   \<and> py_float (py_strip '' abc'') = None
   \<and> fs_demo (goalsFilePath [''GoalsSequencer.py'', ''letters.txt'']) = Some letters_txt
   \<and> (''x = abc, y = 1.0, theta = 0.0'' @ [CHR 0x0A]) \<in> set (file_lines letters_txt)
   \<and> ParseLine py_float (''x = abc, y = 1.0, theta = 0.0'' @ [CHR 0x0A]) = Inl (ValueError ''abc'')
   \<and> (\<exists>e. fst (Parse py_float fs_demo parser_demo (goalsFilePath [''GoalsSequencer.py'', ''letters.txt''])) = Inl e
          \<and> main py_float fs_demo ros_demo [''GoalsSequencer.py'', ''letters.txt''] = (Uncaught e, []))"
proof -
  let ?l = "''x = abc, y = 1.0, theta = 0.0'' @ [CHR 0x0A]"
  let ?argv = "[''GoalsSequencer.py'', ''letters.txt'']"
  have a: "\<not> is_ignored ?l" by code_simp
  have b: "(0 :: nat) < length (line_fields ?l)" by code_simp
  have c: "py_split CHR ''='' (line_fields ?l ! 0) = ''x '' # '' abc'' # []" by code_simp
  have d: "py_strip ''x '' = expected_names ! 0" by code_simp
  have e: "py_float (py_strip '' abc'') = None" by code_simp
  have f: "fs_demo (goalsFilePath ?argv) = Some letters_txt" by code_simp
  have g: "?l \<in> set (file_lines letters_txt)" by code_simp
  have s: "py_strip '' abc'' = ''abc''" by code_simp
  have "ParseLine py_float ?l = Inl (ValueError (py_strip '' abc''))
    \<and> (\<exists>e. fst (Parse py_float fs_demo parser_demo (goalsFilePath ?argv)) = Inl e
          \<and> main py_float fs_demo ros_demo ?argv = (Uncaught e, []))"
    by (rule ParseLine_bad_value [where flt = py_float and fs = fs_demo and i = 0
        and argv = ?argv, OF a _ b _ c d e f g]) simp_all
  then show ?thesis using a c d e f g s by simp
qed

text \<open>
  C5 as stated fails: the value of the first field is not a float, and the line fails
  with the NameError of that field, since the name is checked first.
\<close>

theorem wrong_name_hides_bad_value:
  "\<not> is_ignored ''y = abc, x = 1.0, theta = 0.0''
   \<and> py_split CHR ''='' (line_fields ''y = abc, x = 1.0, theta = 0.0'' ! 0) = [''y '', '' abc'']
   \<and> py_float (py_strip '' abc'') = None
   \<and> ParseLine py_float ''y = abc, x = 1.0, theta = 0.0''
        = Inl (NameError ''Expected variable name x but found y'')"
  by code_simp

text \<open>What follows a second equals sign in a field is not looked at either.\<close>

lemma text_after_second_equals_ignored:
  "ParseLine py_float ''x = 1.0 = abc, y = 2.0, theta = 3.0'' = Inr (Some (1, 2, 3))"
  by code_simp

text \<open>
  C8. \<open>ParseLine\<close> returns nothing, and no error, exactly for the lines whose trimmed
  content starts with \<open>//\<close> or is empty; every other line gives a goal or an error.
  Ignored lines contribute nothing: the loop of \<open>Parse\<close> gives the same result on the
  lines without them.
\<close>

theorem ParseLine_ignores_iff:
  "(ParseLine flt l = Inr None) = (py_startswith (py_strip l) ''//'' \<or> py_strip l = [])
   \<and> Parse_loop flt (filter (\<lambda>l. \<not> is_ignored l) ls) goals = Parse_loop flt ls goals"
  using ParseLine_None_iff [of flt l] Parse_loop_filter [of flt ls goals]
  by (simp add: is_ignored_def)

text \<open>
  C9, as amended. Two parses of the same content, by any parser objects, end alike: if
  one fails, the other fails with the same error; if one returns goals, the other
  returns as many, and the two lists are equal for Python's \<open>==\<close> exactly when no
  record line of the file has a NaN among the values of its first three fields.
\<close>

theorem Parse_twice:
  assumes "fs path = Some content" and "fs' path' = Some content"
  shows "(\<forall>e. fst (Parse flt fs self path) = Inl e \<longrightarrow> fst (Parse flt fs' self' path') = Inl e)
    \<and> (\<forall>goals. fst (Parse flt fs self path) = Inr goals \<longrightarrow>
          (\<exists>goals'. fst (Parse flt fs' self' path') = Inr goals'
             \<and> length goals' = length goals
             \<and> goals_eq goals goals' = (\<not> list_ex (reads_nan flt) (file_lines content))))"
proof -
  have same: "fst (Parse flt fs' self' path') = fst (Parse flt fs self path)"
    using assms by (simp add: Parse_opened)
  have "goals_eq goals goals = (\<not> list_ex (reads_nan flt) (file_lines content))"
    if "fst (Parse flt fs self path) = Inr goals" for goals
  proof -
    from that assms(1) have "Parse_loop flt (file_lines content) [] = Inr goals"
      by (simp add: Parse_opened)
    from Parse_loop_nan [OF this] show ?thesis
      by (auto simp: goals_eq_same)
  qed
  with same show ?thesis by auto
qed

text \<open>
  The good file, parsed by a fresh parser and by one that has parsed it before.
\<close>

theorem Parse_twice_witness:
  "fs_demo ''goals.txt'' = Some goals_txt
   \<and> fst (Parse py_float64 fs_demo parser_demo ''goals.txt'')
       = Inr [(Finite (3 / 2), Finite (- 9 / 4), Finite 0),
              (Finite (23 / 10), Finite (2 / 5), Finite (11 / 10))]
   \<and> \<not> list_ex (reads_nan py_float64) (file_lines goals_txt)
   \<and> (\<exists>goals'. fst (Parse py_float64 fs_demo \<lparr>GoalsFilePath = Some ''goals.txt''\<rparr> ''goals.txt'')
         = Inr goals'
       \<and> length goals' = 2
       \<and> goals_eq [(Finite (3 / 2), Finite (- 9 / 4), Finite 0),
                   (Finite (23 / 10), Finite (2 / 5), Finite (11 / 10))] goals')"
proof -
  let ?gs = "[(Finite (3 / 2), Finite (- 9 / 4), Finite 0),
              (Finite (23 / 10), Finite (2 / 5), Finite (11 / 10))]"
  have f: "fs_demo ''goals.txt'' = Some goals_txt" by (simp add: fs_demo_def)
  have p: "fst (Parse py_float64 fs_demo parser_demo ''goals.txt'') = Inr ?gs" by code_simp
  have n: "\<not> list_ex (reads_nan py_float64) (file_lines goals_txt)" by code_simp
  from Parse_twice [where flt = py_float64 and fs = fs_demo and fs' = fs_demo
      and path = "''goals.txt''" and path' = "''goals.txt''" and self = parser_demo
      and self' = "\<lparr>GoalsFilePath = Some ''goals.txt''\<rparr>", OF f f] p n
  have "\<exists>goals'. fst (Parse py_float64 fs_demo \<lparr>GoalsFilePath = Some ''goals.txt''\<rparr> ''goals.txt'')
         = Inr goals' \<and> length goals' = length ?gs \<and> goals_eq ?gs goals'"
    by blast
  then have "\<exists>goals'. fst (Parse py_float64 fs_demo \<lparr>GoalsFilePath = Some ''goals.txt''\<rparr> ''goals.txt'')
         = Inr goals' \<and> length goals' = 2 \<and> goals_eq ?gs goals'"
    by (simp add: numeral_2_eq_2)
  with f p n show ?thesis by blast
qed

text \<open>
  C9 as stated fails: \<open>float()\<close> reads \<open>nan\<close> as NaN, and the goals of two parses of this
  file are not equal.
\<close>

theorem nan_goals_compare_unequal:
  "fst (Parse py_float64 fs_demo parser_demo ''nan.txt'') = Inr [(NaN, Finite 0, Finite 0)]
   \<and> fst (Parse py_float64 fs_demo (snd (Parse py_float64 fs_demo parser_demo ''nan.txt'')) ''nan.txt'')
       = Inr [(NaN, Finite 0, Finite 0)]
   \<and> \<not> goals_eq [(NaN, Finite 0, Finite 0)] [(NaN, Finite 0, Finite 0)]"
  by code_simp

text \<open>
  C10. There is a record line with fewer than three fields on which the access
  \<open>lineParts[1]\<close> is out of range, and a record line with a field without equals sign on
  which the access \<open>nameValueParts[1]\<close> is out of range; both fail with IndexError.
\<close>

theorem IndexError_reachable:
  "(\<exists>l. \<not> is_ignored l \<and> length (line_fields l) < 3
        \<and> (\<exists>x. ExtractValue py_float ''x'' (line_fields l ! 0) = Inr x)
        \<and> index (line_fields l) 1 = Inl IndexError
        \<and> ParseLine py_float l = Inl IndexError)
   \<and> (\<exists>l. \<not> is_ignored l \<and> CHR ''='' \<notin> set (line_fields l ! 0)
        \<and> index (py_split CHR ''='' (line_fields l ! 0)) 1 = Inl IndexError
        \<and> ParseLine flt l = Inl IndexError)"
proof -
  have "\<not> is_ignored ''x = 1.0'' \<and> length (line_fields ''x = 1.0'') < 3
        \<and> ExtractValue py_float ''x'' (line_fields ''x = 1.0'' ! 0) = Inr 1
        \<and> index (line_fields ''x = 1.0'') 1 = Inl IndexError
        \<and> ParseLine py_float ''x = 1.0'' = Inl IndexError"
    by code_simp
  then have first: "\<exists>l. \<not> is_ignored l \<and> length (line_fields l) < 3
        \<and> (\<exists>x. ExtractValue py_float ''x'' (line_fields l ! 0) = Inr x)
        \<and> index (line_fields l) 1 = Inl IndexError
        \<and> ParseLine py_float l = Inl IndexError"
    by blast
  let ?l = "''x, y = 2.0, theta = 3.0''"
  have i: "\<not> is_ignored ?l" by code_simp
  have f: "line_fields ?l = [''x'', '' y = 2.0'', '' theta = 3.0'']" by code_simp
  have s: "py_split CHR ''='' ''x'' = [''x'']" by code_simp
  have n: "py_strip ''x'' = ''x''" by code_simp
  have "ParseLine flt ?l = Inl IndexError"
    using ExtractValue_no_equals [OF s n, of flt]
    by (simp add: ParseLine_fields3 [OF i f])
  moreover have "CHR ''='' \<notin> set (line_fields ?l ! 0)" by (simp add: f)
  moreover have "index (py_split CHR ''='' (line_fields ?l ! 0)) 1 = Inl IndexError"
    by (simp add: f s index_Cons index_Nil)
  ultimately have "\<exists>l. \<not> is_ignored l \<and> CHR ''='' \<notin> set (line_fields l ! 0)
        \<and> index (py_split CHR ''='' (line_fields l ! 0)) 1 = Inl IndexError
        \<and> ParseLine flt l = Inl IndexError"
    using i by blast
  with first show ?thesis by blast
qed

section \<open>The sequencer: auxiliary facts\<close>

lemma sent_goals_append: "sent_goals (a @ b) = sent_goals a @ sent_goals b"
  by (induction a rule: sent_goals.induct) simp_all

lemma outcome_logs_append: "outcome_logs (a @ b) = outcome_logs a @ outcome_logs b"
  by (simp add: outcome_logs_def)

lemma sent_goals_goal_events:
  "\<exists>now. sent_goals (goal_events r self goal tr state) = [request self now goal]"
  by (auto simp add: goal_events_def Let_def expected_log_def)

lemma outcome_logs_goal_events:
  "outcome_logs (goal_events r self goal tr state) = [expected_log state]"
  by (simp add: goal_events_def Let_def expected_log_def outcome_logs_def)

text \<open>
  One turn of the loop: if the server reports a state for the goal, the events of the
  goal are appended and the loop goes on with the rest; if it never does, the call
  blocks after the request, without an outcome line.
\<close>

lemma NavigateToGoals_Cons_returns:
  "goal_result r (length (sent_goals tr)) = Some state \<Longrightarrow>
   NavigateToGoals r self (goal # rest) tr
     = NavigateToGoals r self rest (tr @ goal_events r self goal tr state)"
  by (simp add: NavigateToGoal_def CreateMoveBaseGoal_def Let_def sent_goals_append
        goal_events_def expected_log_def)

lemma NavigateToGoals_Cons_blocks:
  "goal_result r (length (sent_goals tr)) = None \<Longrightarrow>
   NavigateToGoals r self (goal # rest) tr
     = Blocks (tr @ butlast (goal_events r self goal tr state))"
  by (simp add: NavigateToGoal_def CreateMoveBaseGoal_def Let_def sent_goals_append
        goal_events_def)

lemma NavigateToGoals_append:
  "NavigateToGoals r self (gs @ hs) tr =
     (case NavigateToGoals r self gs tr of
        Blocks tr' \<Rightarrow> Blocks tr'
      | Returns tr' \<Rightarrow> NavigateToGoals r self hs tr')"
  by (induction gs arbitrary: tr) (auto split: run.splits)

lemma NavigateToGoals_trace:
  assumes "\<forall>k. goal_result r k \<noteq> None"
  shows "\<exists>new. NavigateToGoals r self goals tr = Returns (tr @ new)
     \<and> list_all2 (\<lambda>m goal. \<exists>now. m = request self now goal) (sent_goals new) goals
     \<and> outcome_logs new
         = map (\<lambda>k. expected_log (the (goal_result r (length (sent_goals tr) + k))))
             [0..<length goals]"
proof (induction goals arbitrary: tr)
  case Nil
  then show ?case by (simp add: outcome_logs_def)
next
  case (Cons goal rest)
  from assms obtain state where st: "goal_result r (length (sent_goals tr)) = Some state"
    by auto
  let ?E = "goal_events r self goal tr state"
  from Cons.IH [of "tr @ ?E"] obtain new where
    run: "NavigateToGoals r self rest (tr @ ?E) = Returns ((tr @ ?E) @ new)"
    and sent: "list_all2 (\<lambda>m goal. \<exists>now. m = request self now goal) (sent_goals new) rest"
    and logs: "outcome_logs new
         = map (\<lambda>k. expected_log (the (goal_result r (length (sent_goals (tr @ ?E)) + k))))
             [0..<length rest]"
    by blast
  obtain now where one: "sent_goals ?E = [request self now goal]"
    using sent_goals_goal_events by blast
  have "NavigateToGoals r self (goal # rest) tr = Returns (tr @ (?E @ new))"
    using NavigateToGoals_Cons_returns [OF st] run by simp
  moreover have "list_all2 (\<lambda>m goal. \<exists>now. m = request self now goal)
      (sent_goals (?E @ new)) (goal # rest)"
    using sent one by (auto simp: sent_goals_append)
  moreover have "outcome_logs (?E @ new)
         = map (\<lambda>k. expected_log (the (goal_result r (length (sent_goals tr) + k))))
             [0..<length (goal # rest)]"
    using logs st one
    by (simp add: outcome_logs_append outcome_logs_goal_events sent_goals_append map_upt_Suc
          del: upt_Suc)
  ultimately show ?case by blast
qed

text \<open>The code builds the request of the specification; the events of a goal are its block.\<close>

lemma request_navigation_request:
  "request self now goal = navigation_request (GoalFrameId self) now goal"
  by (cases goal)
     (simp add: request_def navigation_request_def quaternion_about_axis_def
        array_to_quaternion_def Let_def)

lemma goal_events_goal_block:
  "goal_events r self goal tr state = goal_block r (GoalFrameId self) goal tr state"
  by (simp add: goal_events_def goal_block_def goal_submission_def Let_def expected_log_def
        request_navigation_request)

lemma butlast_goal_block:
  "butlast (goal_block r frame goal before state) = goal_submission r frame goal before"
  by (simp add: goal_block_def)

lemma sent_goals_goal_block:
  "length (sent_goals (goal_block r frame goal before state)) = 1"
  by (simp add: goal_block_def goal_submission_def Let_def sent_goals_append)

lemma sent_goals_concat:
  "\<forall>b \<in> set blocks. length (sent_goals b) = 1 \<Longrightarrow>
   length (sent_goals (concat blocks)) = length blocks"
  by (induction blocks) (simp_all add: sent_goals_append)

text \<open>
  The run as a sequence of blocks, one per goal, and the run that blocks at goal \<open>j\<close>.
\<close>

lemma NavigateToGoals_blocks:
  assumes "\<forall>k < length goals. goal_result r (length (sent_goals tr) + k) \<noteq> None"
  shows "\<exists>blocks. NavigateToGoals r self goals tr = Returns (tr @ concat blocks)
     \<and> length blocks = length goals
     \<and> (\<forall>k < length goals. blocks ! k =
           goal_block r (GoalFrameId self) (goals ! k) (tr @ concat (take k blocks))
             (the (goal_result r (length (sent_goals tr) + k))))"
  using assms
proof (induction goals arbitrary: tr)
  case Nil
  then show ?case by simp
next
  case (Cons goal rest)
  from Cons.prems [rule_format, of 0] obtain state where
    st: "goal_result r (length (sent_goals tr)) = Some state" by auto
  let ?E = "goal_block r (GoalFrameId self) goal tr state"
  have n: "length (sent_goals (tr @ ?E)) = Suc (length (sent_goals tr))"
    by (simp add: sent_goals_append sent_goals_goal_block)
  have "\<forall>k < length rest. goal_result r (length (sent_goals (tr @ ?E)) + k) \<noteq> None"
    using Cons.prems by (auto simp: n)
  from Cons.IH [OF this] obtain blocks where
    run: "NavigateToGoals r self rest (tr @ ?E) = Returns ((tr @ ?E) @ concat blocks)"
    and len: "length blocks = length rest"
    and each: "\<forall>k < length rest. blocks ! k =
           goal_block r (GoalFrameId self) (rest ! k) ((tr @ ?E) @ concat (take k blocks))
             (the (goal_result r (length (sent_goals (tr @ ?E)) + k)))"
    by blast
  have "NavigateToGoals r self (goal # rest) tr = Returns (tr @ concat (?E # blocks))"
    using NavigateToGoals_Cons_returns [OF st, of self goal rest] run
    by (simp add: goal_events_goal_block)
  moreover have "length (?E # blocks) = length (goal # rest)"
    using len by simp
  moreover have "\<forall>k < length (goal # rest). (?E # blocks) ! k =
           goal_block r (GoalFrameId self) ((goal # rest) ! k) (tr @ concat (take k (?E # blocks)))
             (the (goal_result r (length (sent_goals tr) + k)))"
  proof (intro allI impI)
    fix k assume k: "k < length (goal # rest)"
    show "(?E # blocks) ! k =
           goal_block r (GoalFrameId self) ((goal # rest) ! k) (tr @ concat (take k (?E # blocks)))
             (the (goal_result r (length (sent_goals tr) + k)))"
    proof (cases k)
      case 0
      then show ?thesis by (simp add: st)
    next
      case (Suc k')
      with k each have "blocks ! k' =
           goal_block r (GoalFrameId self) (rest ! k') ((tr @ ?E) @ concat (take k' blocks))
             (the (goal_result r (length (sent_goals (tr @ ?E)) + k')))"
        by simp
      with Suc show ?thesis by (simp add: n)
    qed
  qed
  ultimately show ?case by blast
qed

lemma NavigateToGoals_blocked:
  assumes j: "j < length goals"
    and before: "\<forall>k < j. goal_result r (length (sent_goals tr) + k) \<noteq> None"
    and never: "goal_result r (length (sent_goals tr) + j) = None"
  shows "\<exists>blocks. NavigateToGoals r self goals tr
        = Blocks (tr @ concat blocks
            @ goal_submission r (GoalFrameId self) (goals ! j) (tr @ concat blocks))
     \<and> length blocks = j
     \<and> (\<forall>k < j. blocks ! k =
           goal_block r (GoalFrameId self) (goals ! k) (tr @ concat (take k blocks))
             (the (goal_result r (length (sent_goals tr) + k))))"
proof -
  have split: "goals = take j goals @ goals ! j # drop (Suc j) goals"
    using j by (rule id_take_nth_drop)
  have lt: "length (take j goals) = j" using j by simp
  from before have "\<forall>k < length (take j goals). goal_result r (length (sent_goals tr) + k) \<noteq> None"
    by (simp add: lt)
  from NavigateToGoals_blocks [OF this, of self, unfolded lt] obtain blocks where
    run: "NavigateToGoals r self (take j goals) tr = Returns (tr @ concat blocks)"
    and len: "length blocks = j"
    and each: "\<forall>k < j. blocks ! k =
           goal_block r (GoalFrameId self) (take j goals ! k) (tr @ concat (take k blocks))
             (the (goal_result r (length (sent_goals tr) + k)))"
    by blast
  have "\<forall>b \<in> set blocks. length (sent_goals b) = 1"
  proof
    fix b assume "b \<in> set blocks"
    then obtain k where "k < j" "b = blocks ! k" using len by (auto simp: in_set_conv_nth)
    with each show "length (sent_goals b) = 1" by (simp add: sent_goals_goal_block)
  qed
  then have cnt: "length (sent_goals (tr @ concat blocks)) = length (sent_goals tr) + j"
    by (simp add: sent_goals_append sent_goals_concat len)
  have "NavigateToGoals r self (goals ! j # drop (Suc j) goals) (tr @ concat blocks)
      = Blocks ((tr @ concat blocks)
          @ goal_submission r (GoalFrameId self) (goals ! j) (tr @ concat blocks))"
    using NavigateToGoals_Cons_blocks [of r "tr @ concat blocks" self "goals ! j"
        "drop (Suc j) goals" SUCCEEDED] never
    by (simp add: cnt goal_events_goal_block butlast_goal_block)
  then have "NavigateToGoals r self goals tr
        = Blocks (tr @ concat blocks
            @ goal_submission r (GoalFrameId self) (goals ! j) (tr @ concat blocks))"
    using run NavigateToGoals_append [of r self "take j goals" "goals ! j # drop (Suc j) goals" tr]
      split by simp
  moreover from each have "\<forall>k < j. blocks ! k =
           goal_block r (GoalFrameId self) (goals ! k) (tr @ concat (take k blocks))
             (the (goal_result r (length (sent_goals tr) + k)))"
    by simp
  ultimately show ?thesis using len by blast
qed

section \<open>The sequencer: the claims\<close>

text \<open>
  C1. If the server reports a state for each of the goals, \<open>NavigateToGoals\<close> returns,
  and what it has done is one block per goal, in the order of the goals and nothing
  else: the announcement of the goal, the request built from the goal (printed, then
  sent), and the outcome line for the state reported for this goal, at info severity
  for SUCCEEDED and at error severity otherwise. So the outcome of a goal is logged
  before the next goal is announced and sent, every goal is sent exactly once whatever
  the states are, and \<open>n\<close> goals give \<open>n\<close> requests. If the server never reports on
  goal \<open>j\<close>, the call blocks right after sending it: the goals before it have their
  blocks, goal \<open>j\<close> has no outcome line, and no later goal is announced or sent.
\<close>

theorem NavigateToGoals_in_order:
  "((\<forall>k < length goals. goal_result r (length (sent_goals tr) + k) \<noteq> None) \<longrightarrow>
      (\<exists>blocks. NavigateToGoals r self goals tr = Returns (tr @ concat blocks)
         \<and> length blocks = length goals
         \<and> (\<forall>k < length goals. blocks ! k =
               goal_block r (GoalFrameId self) (goals ! k) (tr @ concat (take k blocks))
                 (the (goal_result r (length (sent_goals tr) + k))))
         \<and> length (sent_goals (concat blocks)) = length goals))
   \<and> (j < length goals
        \<and> (\<forall>k < j. goal_result r (length (sent_goals tr) + k) \<noteq> None)
        \<and> goal_result r (length (sent_goals tr) + j) = None \<longrightarrow>
      (\<exists>blocks. NavigateToGoals r self goals tr
             = Blocks (tr @ concat blocks
                 @ goal_submission r (GoalFrameId self) (goals ! j) (tr @ concat blocks))
         \<and> length blocks = j
         \<and> (\<forall>k < j. blocks ! k =
               goal_block r (GoalFrameId self) (goals ! k) (tr @ concat (take k blocks))
                 (the (goal_result r (length (sent_goals tr) + k))))))"
proof (intro conjI impI)
  assume a: "\<forall>k < length goals. goal_result r (length (sent_goals tr) + k) \<noteq> None"
  from NavigateToGoals_blocks [OF a, of self] obtain blocks where
    b: "NavigateToGoals r self goals tr = Returns (tr @ concat blocks)"
      "length blocks = length goals"
      "\<forall>k < length goals. blocks ! k =
               goal_block r (GoalFrameId self) (goals ! k) (tr @ concat (take k blocks))
                 (the (goal_result r (length (sent_goals tr) + k)))"
    by blast
  have "\<forall>b \<in> set blocks. length (sent_goals b) = 1"
  proof
    fix c assume "c \<in> set blocks"
    then obtain k where "k < length goals" "c = blocks ! k"
      using b(2) by (auto simp: in_set_conv_nth)
    with b(3) show "length (sent_goals c) = 1" by (simp add: sent_goals_goal_block)
  qed
  then have "length (sent_goals (concat blocks)) = length goals"
    by (simp add: sent_goals_concat b(2))
  with b show "\<exists>blocks. NavigateToGoals r self goals tr = Returns (tr @ concat blocks)
         \<and> length blocks = length goals
         \<and> (\<forall>k < length goals. blocks ! k =
               goal_block r (GoalFrameId self) (goals ! k) (tr @ concat (take k blocks))
                 (the (goal_result r (length (sent_goals tr) + k))))
         \<and> length (sent_goals (concat blocks)) = length goals"
    by blast
next
  assume "j < length goals
        \<and> (\<forall>k < j. goal_result r (length (sent_goals tr) + k) \<noteq> None)
        \<and> goal_result r (length (sent_goals tr) + j) = None"
  then show "\<exists>blocks. NavigateToGoals r self goals tr
             = Blocks (tr @ concat blocks
                 @ goal_submission r (GoalFrameId self) (goals ! j) (tr @ concat blocks))
         \<and> length blocks = j
         \<and> (\<forall>k < j. blocks ! k =
               goal_block r (GoalFrameId self) (goals ! k) (tr @ concat (take k blocks))
                 (the (goal_result r (length (sent_goals tr) + k))))"
    using NavigateToGoals_blocked [of j goals r tr self] by blast
qed

text \<open>
  Three goals: in one world the server reports success, failure, success; in the other
  it never reports on the second goal.
\<close>

theorem NavigateToGoals_in_order_witness:
  "goal_result ros_demo 0 \<noteq> None \<and> goal_result ros_demo 1 \<noteq> None
   \<and> goal_result ros_demo 2 \<noteq> None
   \<and> NavigateToGoals ros_demo sequencer_demo [(1, 2, 0), (3, 4, pi), (5, 6, 0)] []
       = Returns
          [Stdout ''Navigating to goal (goal)'', Stdout ''target_pose'',
           SendGoal (navigation_request ''/map'' 1 (1, 2, 0)), LogInfo ''Goal reached'',
           Stdout ''Navigating to goal (goal)'', Stdout ''target_pose'',
           SendGoal (navigation_request ''/map'' 5 (3, 4, pi)),
           LogErr ''Could not execute goal for some reason'',
           Stdout ''Navigating to goal (goal)'', Stdout ''target_pose'',
           SendGoal (navigation_request ''/map'' 9 (5, 6, 0)), LogInfo ''Goal reached'']
   \<and> goal_result ros_stuck (length (sent_goals []) + 0) \<noteq> None
   \<and> goal_result ros_stuck (length (sent_goals []) + 1) = None
   \<and> NavigateToGoals ros_stuck sequencer_demo [(1, 2, 0), (3, 4, pi), (5, 6, 0)] []
       = Blocks
          [Stdout ''Navigating to goal (goal)'', Stdout ''target_pose'',
           SendGoal (navigation_request ''/map'' 1 (1, 2, 0)), LogInfo ''Goal reached'',
           Stdout ''Navigating to goal (goal)'', Stdout ''target_pose'',
           SendGoal (navigation_request ''/map'' 5 (3, 4, pi))]"
proof -
  let ?G = "[(1 :: real, 2 :: real, 0 :: real), (3, 4, pi), (5, 6, 0)]"
  have h: "\<forall>k < length ?G. goal_result ros_demo (length (sent_goals []) + k) \<noteq> None"
    by (simp add: ros_demo_def)
  from NavigateToGoals_in_order [of ?G ros_demo "[]" sequencer_demo 0] h obtain blocks where
    run: "NavigateToGoals ros_demo sequencer_demo ?G [] = Returns ([] @ concat blocks)"
    and len: "length blocks = length ?G"
    and each: "\<forall>k < length ?G. blocks ! k =
               goal_block ros_demo (GoalFrameId sequencer_demo) (?G ! k) ([] @ concat (take k blocks))
                 (the (goal_result ros_demo (length (sent_goals []) + k)))"
    by blast
  from len obtain b0 b1 b2 where bs: "blocks = [b0, b1, b2]"
    by (auto simp: length_Suc_conv)
  from each [rule_format, of 0] have b0: "b0 =
      [Stdout ''Navigating to goal (goal)'', Stdout ''target_pose'',
       SendGoal (navigation_request ''/map'' 1 (1, 2, 0)), LogInfo ''Goal reached'']"
    by (simp add: bs ros_demo_def sequencer_demo_def goal_block_def goal_submission_def)
  from each [rule_format, of 1] have b1: "b1 =
      [Stdout ''Navigating to goal (goal)'', Stdout ''target_pose'',
       SendGoal (navigation_request ''/map'' 5 (3, 4, pi)),
       LogErr ''Could not execute goal for some reason'']"
    by (simp add: bs b0 ros_demo_def sequencer_demo_def goal_block_def goal_submission_def
          eval_nat_numeral)
  from each [rule_format, of 2] have b2: "b2 =
      [Stdout ''Navigating to goal (goal)'', Stdout ''target_pose'',
       SendGoal (navigation_request ''/map'' 9 (5, 6, 0)), LogInfo ''Goal reached'']"
    by (simp add: bs b0 b1 ros_demo_def sequencer_demo_def goal_block_def goal_submission_def
          eval_nat_numeral)
  have r1: "NavigateToGoals ros_demo sequencer_demo ?G [] = Returns (b0 @ b1 @ b2)"
    using run by (simp only: bs concat.simps append_Nil append_Nil2)
  have s0: "goal_result ros_stuck (length (sent_goals []) + 0) \<noteq> None"
    by (simp add: ros_stuck_def ros_demo_def)
  have s1: "goal_result ros_stuck (length (sent_goals []) + 1) = None"
    by (simp add: ros_stuck_def ros_demo_def)
  have sb: "\<forall>k < 1. goal_result ros_stuck (length (sent_goals []) + k) \<noteq> None"
    using s0 by simp
  from NavigateToGoals_in_order [of ?G ros_stuck "[]" sequencer_demo 1] sb s1 obtain cs where
    stuck: "NavigateToGoals ros_stuck sequencer_demo ?G []
        = Blocks ([] @ concat cs
            @ goal_submission ros_stuck (GoalFrameId sequencer_demo) (?G ! 1) ([] @ concat cs))"
    and clen: "length cs = 1"
    and ceach: "\<forall>k < 1. cs ! k =
               goal_block ros_stuck (GoalFrameId sequencer_demo) (?G ! k) ([] @ concat (take k cs))
                 (the (goal_result ros_stuck (length (sent_goals []) + k)))"
    by auto
  from clen obtain c0 where cs: "cs = [c0]" by (auto simp: length_Suc_conv)
  from ceach [rule_format, of 0] have c0: "c0 =
      [Stdout ''Navigating to goal (goal)'', Stdout ''target_pose'',
       SendGoal (navigation_request ''/map'' 1 (1, 2, 0)), LogInfo ''Goal reached'']"
    by (simp add: cs ros_stuck_def ros_demo_def sequencer_demo_def goal_block_def goal_submission_def)
  have r2: "NavigateToGoals ros_stuck sequencer_demo ?G []
      = Blocks (c0 @ [Stdout ''Navigating to goal (goal)'', Stdout ''target_pose'',
           SendGoal (navigation_request ''/map'' 5 (3, 4, pi))])"
    unfolding stuck
    by (simp add: cs c0 ros_stuck_def ros_demo_def sequencer_demo_def goal_submission_def
          eval_nat_numeral)
  have d: "goal_result ros_demo 0 \<noteq> None \<and> goal_result ros_demo 1 \<noteq> None
      \<and> goal_result ros_demo 2 \<noteq> None"
    by (simp add: ros_demo_def)
  show ?thesis
    using d r1 s0 s1 r2 unfolding b0 b1 b2 c0 by simp
qed

text \<open>
  C7, as amended. Processing a goal, after any goals before it, appends exactly four
  events: the announcement printed on standard output, the message printed on standard
  output by \<open>CreateMoveBaseGoal\<close>, the request sent to the server, and one outcome line,
  at info severity for SUCCEEDED and at error severity otherwise.
\<close>

theorem NavigateToGoals_effects_of_a_goal:
  assumes "\<forall>k. goal_result r k \<noteq> None"
  shows "\<exists>tr' state m. NavigateToGoals r self goals tr = Returns tr'
     \<and> goal_result r (length (sent_goals tr')) = Some state
     \<and> m = request self (time_now r (tr' @ [Stdout (''Navigating to goal '' @ str_goal r goal)])) goal
     \<and> NavigateToGoals r self (goals @ [goal]) tr
         = Returns (tr' @ [Stdout (''Navigating to goal '' @ str_goal r goal),
                          Stdout (str_msg r m),
                          SendGoal m,
                          if state = SUCCEEDED then LogInfo ''Goal reached''
                          else LogErr ''Could not execute goal for some reason''])"
proof -
  from NavigateToGoals_trace [OF assms, of self goals tr] obtain tr' where
    run: "NavigateToGoals r self goals tr = Returns tr'" by blast
  from assms obtain state where st: "goal_result r (length (sent_goals tr')) = Some state"
    by auto
  have "NavigateToGoals r self (goals @ [goal]) tr
      = Returns (tr' @ goal_events r self goal tr' state)"
    using run NavigateToGoals_Cons_returns [OF st, of self goal "[]"]
    by (simp add: NavigateToGoals_append)
  with run st show ?thesis
    by (simp add: goal_events_def Let_def expected_log_def)
qed

text \<open>
  The first goal of a run, reported as succeeded.
\<close>

theorem NavigateToGoals_effects_of_a_goal_witness:
  "(\<forall>k. goal_result ros_demo k \<noteq> None)
   \<and> NavigateToGoals ros_demo sequencer_demo [] [] = Returns []
   \<and> goal_result ros_demo (length (sent_goals [])) = Some SUCCEEDED
   \<and> NavigateToGoals ros_demo sequencer_demo [(1, 2, 0)] []
       = Returns [Stdout ''Navigating to goal (goal)'', Stdout ''target_pose'',
                  SendGoal (request sequencer_demo 1 (1, 2, 0)), LogInfo ''Goal reached'']"
proof -
  have h: "\<forall>k. goal_result ros_demo k \<noteq> None" by (simp add: ros_demo_def)
  from NavigateToGoals_effects_of_a_goal [OF h, of sequencer_demo "[]" "[]" "(1, 2, 0)"]
  show ?thesis using h by (simp add: ros_demo_def)
qed

text \<open>
  C7 as stated fails: a goal has three emissions, not two; between the announcement
  and the outcome line, the message is printed.
\<close>

theorem message_is_printed_too:
  "filter is_emission (trace_of (NavigateToGoals ros_demo sequencer_demo [(1, 2, 0)] []))
     = [Stdout ''Navigating to goal (goal)'', Stdout ''target_pose'', LogInfo ''Goal reached'']"
  by (simp add: NavigateToGoal_def CreateMoveBaseGoal_def Let_def ros_demo_def)

text \<open>
  C6. The orientation of the message built for a goal is
  \<open>(0, 0, sin (theta / 2), cos (theta / 2))\<close>, whatever the world, the sequencer, the
  position and the events so far; it is \<open>(0, 0, 0, 1)\<close> for \<open>theta = 0\<close> and
  \<open>(0, 0, 1, 0)\<close> for \<open>theta = pi\<close>; and it is a unit quaternion.
\<close>

theorem orientation_half_angle:
  "orientation (pose (target_pose (fst (CreateMoveBaseGoal r self (x, y, theta) tr))))
     = \<lparr>quat_x = 0, quat_y = 0, quat_z = sin (theta / 2), quat_w = cos (theta / 2)\<rparr>
   \<and> orientation (pose (target_pose (fst (CreateMoveBaseGoal r self (x, y, 0) tr))))
     = \<lparr>quat_x = 0, quat_y = 0, quat_z = 0, quat_w = 1\<rparr>
   \<and> orientation (pose (target_pose (fst (CreateMoveBaseGoal r self (x, y, pi) tr))))
     = \<lparr>quat_x = 0, quat_y = 0, quat_z = 1, quat_w = 0\<rparr>
   \<and> (let q = orientation (pose (target_pose (fst (CreateMoveBaseGoal r self (x, y, theta) tr))))
      in quat_x q * quat_x q + quat_y q * quat_y q + quat_z q * quat_z q + quat_w q * quat_w q = 1)"
proof -
  have unit: "sin (theta / 2) * sin (theta / 2) + cos (theta / 2) * cos (theta / 2) = 1"
    using sin_cos_squared_add [of "theta / 2"] by (simp add: power2_eq_square)
  show ?thesis
    by (simp add: CreateMoveBaseGoal_def request_def quaternion_about_axis_def
          array_to_quaternion_def Let_def unit)
qed

end
